theory Spec2Isabelle
  imports Main "HOL-Library.Word" "HOL-Library.AList"
begin

section \<open>Python values, exceptions and the external libraries\<close>

text \<open>
  The values that reach the signers: \<open>None\<close>, booleans, integers, text, byte strings,
  lists and dictionaries. A dictionary is an association list in insertion order, as a
  Python \<open>dict\<close> is; \<open>map_of\<close> reads it, \<open>AList.update\<close> is item assignment
  and \<open>AList.delete\<close> is \<open>del\<close>, \<open>pop\<close> and \<open>dissoc\<close>.
\<close>

datatype pyval =
    PNone
  | PBool bool
  | PInt int
  | PStr string
  | PBytes "8 word list"
  | PList "pyval list"
  | PDict "(string \<times> pyval) list"

text \<open>
  The exceptions of the two modules, one constructor per class, with the message (or the
  account) the class is built from. \<open>USBErrorNoDevice\<close>, \<open>USBErrorBusy\<close> and
  \<open>USBErrorOther\<close> are the \<open>usb1\<close> transport errors, \<open>TransportException\<close> is
  trezorlib's.
\<close>

datatype error =
    TypeError string
  | ValueError string
  | KeyError pyval
  | AttributeError string
  | RuntimeError string
  | NotImplementedError
  | InvalidChecksumAddress string
  | InvalidSignerURI string
  | InvalidKeyfile string
  | AccountLocked pyval
  | UnknownAccount pyval
  | NoDeviceDetected string
  | FileNotFoundError string
  | ConnectionRefusedError string
  | USBErrorNoDevice
  | USBErrorBusy
  | USBErrorOther string
  | TransportException string

text \<open>\<open>isinstance(e, Signer.SignerError)\<close>: the classes declared under \<open>SignerError\<close>.
  \<open>TrezorSigner.NoDeviceDetected\<close> is declared as a \<open>RuntimeError\<close>.\<close>

fun is_SignerError :: "error \<Rightarrow> bool" where
  "is_SignerError (InvalidSignerURI m) = True"
| "is_SignerError (InvalidKeyfile m) = True"
| "is_SignerError (AccountLocked a) = True"
| "is_SignerError (UnknownAccount a) = True"
| "is_SignerError e = False"

text \<open>\<open>isinstance(e, OSError)\<close>: the interpreter's input/output errors.\<close>

fun is_OSError :: "error \<Rightarrow> bool" where
  "is_OSError (FileNotFoundError m) = True"
| "is_OSError (ConnectionRefusedError m) = True"
| "is_OSError e = False"

text \<open>The low-level transport errors of the USB stack and of trezorlib.\<close>

fun is_transport_error :: "error \<Rightarrow> bool" where
  "is_transport_error USBErrorNoDevice = True"
| "is_transport_error USBErrorBusy = True"
| "is_transport_error (USBErrorOther m) = True"
| "is_transport_error (TransportException m) = True"
| "is_transport_error e = False"

text \<open>Truth value of a Python object (\<open>if x\<close>, \<open>not x\<close>).\<close>

fun truthy :: "pyval \<Rightarrow> bool" where
  "truthy PNone = False"
| "truthy (PBool b) = b"
| "truthy (PInt i) = (i \<noteq> 0)"
| "truthy (PStr s) = (s \<noteq> [])"
| "truthy (PBytes b) = (b \<noteq> [])"
| "truthy (PList xs) = (xs \<noteq> [])"
| "truthy (PDict d) = (d \<noteq> [])"

text \<open>\<open>x.__class__.__name__\<close>.\<close>

fun type_name :: "pyval \<Rightarrow> string" where
  "type_name PNone = ''NoneType''"
| "type_name (PBool b) = ''bool''"
| "type_name (PInt i) = ''int''"
| "type_name (PStr s) = ''str''"
| "type_name (PBytes b) = ''bytes''"
| "type_name (PList xs) = ''list''"
| "type_name (PDict d) = ''dict''"

text \<open>Lists and dictionaries have no hash: a set membership test on them raises.\<close>

fun hashable :: "pyval \<Rightarrow> bool" where
  "hashable (PList xs) = False"
| "hashable (PDict d) = False"
| "hashable v = True"

fun is_str :: "pyval \<Rightarrow> bool" where
  "is_str (PStr s) = True"
| "is_str v = False"

definition squote :: "string \<Rightarrow> string" where
  "squote s = CHR 0x27 # s @ [CHR 0x27]"

definition dquote :: "string \<Rightarrow> string" where
  "dquote s = CHR 0x22 # s @ [CHR 0x22]"

text \<open>\<open>str.endswith\<close>.\<close>

definition endswith :: "string \<Rightarrow> string \<Rightarrow> bool" where
  "endswith s suf = (length suf \<le> length s \<and> drop (length s - length suf) s = suf)"

text \<open>
  \<open>LocalAccount\<close> of \<open>eth_account\<close>: a private key held in memory. \<open>Transaction\<close>
  is \<open>eth_account\<close>'s serializable transaction: the signature values \<open>v\<close>, \<open>r\<close>,
  \<open>s\<close> and the other fields as keyword arguments.
\<close>

datatype local_account = LocalAccount "8 word list"

datatype transaction = Transaction int int int "(string \<times> pyval) list"

text \<open>
  The functions of \<open>eth_utils\<close>, \<open>web3\<close>, \<open>hexbytes\<close>, \<open>eth_account\<close>,
  \<open>trezorlib.tools\<close> and \<open>rlp\<close> that the two modules import, and the built-in
  \<open>str\<close>. They are not code of this repository: they are parameters of the model, and
  a failing call is the exception it raises. \<open>Account_decrypt\<close> is
  \<open>Account.from_key(Account.decrypt(key_metadata, password))\<close>;
  \<open>toBytes\<close> is \<open>Web3.toBytes(HexBytes(x))\<close>.
\<close>

record eth_lib =
  py_str :: "pyval \<Rightarrow> string"
  is_hex_address :: "string \<Rightarrow> bool"
  to_checksum_address :: "pyval \<Rightarrow> error + string"
  to_canonical_address :: "pyval \<Rightarrow> error + 8 word list"
  toHex :: "pyval \<Rightarrow> error + pyval"
  toBytes :: "pyval \<Rightarrow> error + pyval"
  HexBytes :: "pyval \<Rightarrow> error + pyval"
  to_int :: "pyval \<Rightarrow> error + int"
  assert_valid_fields :: "(string \<times> pyval) list \<Rightarrow> error option"
  parse_path :: "string \<Rightarrow> error + int list"
  rlp_encode :: "transaction \<Rightarrow> error + 8 word list"
  Account_decrypt :: "pyval \<Rightarrow> pyval \<Rightarrow> error + local_account"
  account_sign_transaction :: "local_account \<Rightarrow> (string \<times> pyval) list \<Rightarrow> error + pyval"
  account_sign_message :: "local_account \<Rightarrow> pyval \<Rightarrow> error + pyval"

text \<open>
  \<open>eth_utils.is_checksum_address\<close>: a text value that is a hex address and is equal to
  its own checksummed form.
\<close>

definition is_checksum_address :: "eth_lib \<Rightarrow> pyval \<Rightarrow> bool" where
  "is_checksum_address lib v =
     (case v of
        PStr s \<Rightarrow> is_hex_address lib s \<and> to_checksum_address lib v = Inr s
      | _ \<Rightarrow> False)"

section \<open>decorators.py: validate_checksum_address\<close>

text \<open>
  \<open>__VERIFIED_ADDRESSES\<close> is a module-level set. Only values that passed
  \<open>is_checksum_address\<close> are ever added, and those are text, so the set is a set of
  strings; a value of another type is never a member.
\<close>

type_synonym verified = "string set"

fun in_verified :: "pyval \<Rightarrow> verified \<Rightarrow> bool" where
  "in_verified (PStr s) cache = (s \<in> cache)"
| "in_verified v cache = False"

fun add_verified :: "pyval \<Rightarrow> verified \<Rightarrow> verified" where
  "add_verified (PStr s) cache = insert s cache"
| "add_verified v cache = cache"

text \<open>
  A bound parameter of a call, as \<open>inspect.getcallargs\<close> and \<open>inspect.signature\<close>
  give it: the parameter's name, whether its declared default is \<open>None\<close>, and the value
  bound to it. A call is the list of its bound parameters in the order of the dictionary
  that \<open>getcallargs\<close> returns, which is the order the loop visits them in: the
  positional arguments in the order of the declaration, then the keyword arguments in
  the order the caller wrote them, then the defaults of the parameters that were not
  given. It is the declaration's order only for a call that writes its arguments so.
\<close>

type_synonym param = "string \<times> bool \<times> pyval"

definition parameter_name_suffix :: string where
  "parameter_name_suffix = ''_address''"

definition aliases :: "string list" where
  "aliases = [''account'', ''address'']"

definition addresses_as_parameters :: "param list \<Rightarrow> param list" where
  "addresses_as_parameters params =
     filter (\<lambda>(parameter_name, optional, v).
               endswith parameter_name parameter_name_suffix \<or> parameter_name \<in> set aliases)
            params"

definition type_message :: "pyval \<Rightarrow> string \<Rightarrow> string" where
  "type_message v parameter_name =
     type_name v @ '' is an invalid type for parameter '' @ dquote parameter_name @ ''.''"

definition checksum_message :: "pyval \<Rightarrow> string" where
  "checksum_message v =
     dquote (case v of PStr s \<Rightarrow> s | _ \<Rightarrow> []) @ '' is not a valid EIP-55 checksum address.''"

text \<open>
  The \<open>for\<close> loop of \<open>wrapped\<close> over the address parameters. The result is the cache
  after the loop and the exception that left it, if any. The membership test comes first
  and hashes the value, so a list or a dictionary raises there.
\<close>

fun validate_addresses :: "eth_lib \<Rightarrow> param list \<Rightarrow> verified \<Rightarrow> verified \<times> error option" where
  "validate_addresses lib [] cache = (cache, None)"
| "validate_addresses lib ((parameter_name, parameter_is_optional, checksum_address) # ps) cache =
     (if \<not> hashable checksum_address
        then (cache, Some (TypeError (''unhashable type: '' @ squote (type_name checksum_address))))
      else if in_verified checksum_address cache
        then validate_addresses lib ps cache
      else if parameter_is_optional \<and> checksum_address = PNone
        then validate_addresses lib ps cache
      else if is_checksum_address lib checksum_address
        then validate_addresses lib ps (add_verified checksum_address cache)
      else if \<not> is_str checksum_address
        then (cache, Some (TypeError (type_message checksum_address parameter_name)))
      else (cache, Some (InvalidChecksumAddress (checksum_message checksum_address))))"

text \<open>
  An operation runs on the verified-address cache and on the state \<open>'w\<close> of its
  object and of the world it talks to; it leaves both, and returns a value or raises.
\<close>

type_synonym ('w, 'a) operation = "verified \<Rightarrow> 'w \<Rightarrow> (verified \<times> 'w) \<times> (error + 'a)"

text \<open>
  The decorated function: the wrapped operation \<open>func\<close> runs, on the cache the loop
  left, only when the loop ends without an exception.
\<close>

definition wrapped :: "eth_lib \<Rightarrow> param list \<Rightarrow> ('w, 'a) operation \<Rightarrow> ('w, 'a) operation" where
  "wrapped lib params func cache w =
     (case validate_addresses lib (addresses_as_parameters params) cache of
        (cache', Some e) \<Rightarrow> ((cache', w), Inl e)
      | (cache', None) \<Rightarrow> func cache' w)"

text \<open>An operation that does not call a decorated function leaves the cache as it is.\<close>

definition plain :: "('w \<Rightarrow> 'w \<times> (error + 'a)) \<Rightarrow> ('w, 'a) operation" where
  "plain body cache w = (case body w of (w', r) \<Rightarrow> ((cache, w'), r))"

text \<open>The cache after a sequence of decorated calls: it outlives each of them, also
  the failing ones.\<close>

fun run_validations :: "eth_lib \<Rightarrow> param list list \<Rightarrow> verified \<Rightarrow> verified" where
  "run_validations lib [] cache = cache"
| "run_validations lib (ps # calls) cache =
     run_validations lib calls (fst (validate_addresses lib (addresses_as_parameters ps) cache))"

section \<open>signers.py: KeystoreSigner\<close>

text \<open>
  The two dictionaries of a keystore signer: \<open>__keys\<close>, from an account to the
  metadata of its key file, and \<open>__signers\<close>, from an account to its decrypted key.
\<close>

record keystore_signer =
  keys :: "(pyval \<times> pyval) list"
  signers :: "(pyval \<times> local_account) list"

text \<open>\<open>d[key]\<close>: the value, or \<open>KeyError(key)\<close>.\<close>

definition getitem :: "('k \<times> 'v) list \<Rightarrow> 'k \<Rightarrow> ('k \<Rightarrow> pyval) \<Rightarrow> error + 'v" where
  "getitem d key as_value =
     (case map_of d key of None \<Rightarrow> Inl (KeyError (as_value key)) | Some v \<Rightarrow> Inr v)"

definition KeystoreSigner_accounts :: "keystore_signer \<Rightarrow> pyval list" where
  "KeystoreSigner_accounts self = map fst (keys self)"

text \<open>
  \<open>__get_signer\<close>, decorated. In the parameter lists below \<open>self\<close> is left out: its
  name is not an address name, so the validator never reads it.
\<close>

definition KeystoreSigner_get_signer_body :: "keystore_signer \<Rightarrow> pyval \<Rightarrow> error + local_account" where
  "KeystoreSigner_get_signer_body self account =
     (case getitem (signers self) account id of
        Inr signer \<Rightarrow> Inr signer
      | Inl (KeyError k) \<Rightarrow>
          (if account \<notin> fst ` set (keys self) then Inl (UnknownAccount account)
           else Inl (AccountLocked account))
      | Inl e \<Rightarrow> Inl e)"

definition KeystoreSigner_get_signer :: "eth_lib \<Rightarrow> pyval \<Rightarrow> (keystore_signer, local_account) operation" where
  "KeystoreSigner_get_signer lib account =
     wrapped lib [(''account'', False, account)]
       (plain (\<lambda>self. (self, KeystoreSigner_get_signer_body self account)))"

text \<open>
  \<open>unlock_account\<close>. The \<open>try\<close> block holds the dictionary lookup only; the
  decryption is in its \<open>else\<close> clause, outside the two handlers, so what
  \<open>Account.decrypt\<close> raises leaves the method.
\<close>

definition KeystoreSigner_unlock_account_body ::
    "eth_lib \<Rightarrow> pyval \<Rightarrow> pyval \<Rightarrow> keystore_signer \<Rightarrow> keystore_signer \<times> (error + bool)" where
  "KeystoreSigner_unlock_account_body lib account password self =
     (if map_of (signers self) account = None then
        (case getitem (keys self) account id of
           Inl (ValueError m) \<Rightarrow> (self, Inr False)
         | Inl (KeyError k) \<Rightarrow> (self, Inl (UnknownAccount account))
         | Inl e \<Rightarrow> (self, Inl e)
         | Inr key_metadata \<Rightarrow>
             (case Account_decrypt lib key_metadata password of
                Inl e \<Rightarrow> (self, Inl e)
              | Inr signing_key \<Rightarrow>
                  (self\<lparr>signers := AList.update account signing_key (signers self)\<rparr>, Inr True)))
      else (self, Inr True))"

definition KeystoreSigner_unlock_account ::
    "eth_lib \<Rightarrow> pyval \<Rightarrow> pyval \<Rightarrow> pyval \<Rightarrow> (keystore_signer, bool) operation" where
  "KeystoreSigner_unlock_account lib account password duration =
     wrapped lib
       [(''account'', False, account), (''password'', False, password), (''duration'', True, duration)]
       (plain (KeystoreSigner_unlock_account_body lib account password))"

definition KeystoreSigner_lock_account_body :: "pyval \<Rightarrow> keystore_signer \<Rightarrow> keystore_signer \<times> (error + bool)" where
  "KeystoreSigner_lock_account_body account self =
     (case getitem (signers self) account id of
        Inr signer \<Rightarrow>
          (let self' = self\<lparr>signers := AList.delete account (signers self)\<rparr>
           in (self', Inr (account \<notin> fst ` set (signers self'))))
      | Inl (KeyError k) \<Rightarrow>
          (if account \<notin> set (KeystoreSigner_accounts self) then (self, Inl (UnknownAccount account))
           else (self, Inr (account \<notin> fst ` set (signers self))))
      | Inl e \<Rightarrow> (self, Inl e))"

definition KeystoreSigner_lock_account :: "eth_lib \<Rightarrow> pyval \<Rightarrow> (keystore_signer, bool) operation" where
  "KeystoreSigner_lock_account lib account =
     wrapped lib [(''account'', False, account)] (plain (KeystoreSigner_lock_account_body account))"

text \<open>
  \<open>KeystoreSigner.sign_transaction\<close>. Its only parameter is \<open>transaction_dict\<close>; the
  sender is validated by the decorated \<open>__get_signer\<close>. A falsy \<open>to\<close> is removed by
  \<open>dissoc\<close> before the account signs.
\<close>

definition KeystoreSigner_sign_transaction ::
    "eth_lib \<Rightarrow> (string \<times> pyval) list \<Rightarrow> (keystore_signer, pyval) operation" where
  "KeystoreSigner_sign_transaction lib transaction_dict =
     wrapped lib [(''transaction_dict'', False, PDict transaction_dict)]
       (\<lambda>cache self.
          case getitem transaction_dict ''from'' PStr of
            Inl e \<Rightarrow> ((cache, self), Inl e)
          | Inr sender \<Rightarrow>
              (case KeystoreSigner_get_signer lib sender cache self of
                 (st, Inl e) \<Rightarrow> (st, Inl e)
               | (st, Inr signer) \<Rightarrow>
                   (case getitem transaction_dict ''to'' PStr of
                      Inl e \<Rightarrow> (st, Inl e)
                    | Inr to \<Rightarrow>
                        (st, account_sign_transaction lib signer
                               (if \<not> truthy to then AList.delete ''to'' transaction_dict
                                else transaction_dict)))))"

definition KeystoreSigner_sign_message :: "eth_lib \<Rightarrow> pyval \<Rightarrow> pyval \<Rightarrow> (keystore_signer, pyval) operation" where
  "KeystoreSigner_sign_message lib account message =
     wrapped lib [(''account'', False, account), (''message'', False, message), (''kwargs'', False, PDict [])]
       (\<lambda>cache self.
          case KeystoreSigner_get_signer lib account cache self of
            (st, Inl e) \<Rightarrow> (st, Inl e)
          | (st, Inr signer) \<Rightarrow> (st, account_sign_message lib signer message))"

section \<open>signers.py: ClefSigner\<close>

definition SIGN_DATA_FOR_VALIDATOR :: string where
  "SIGN_DATA_FOR_VALIDATOR = ''data/validator''"

definition SIGN_DATA_FOR_CLIQUE :: string where
  "SIGN_DATA_FOR_CLIQUE = ''application/clique''"

definition SIGN_DATA_FOR_ECRECOVER :: string where
  "SIGN_DATA_FOR_ECRECOVER = ''text/plain''"

definition DEFAULT_CONTENT_TYPE :: string where
  "DEFAULT_CONTENT_TYPE = SIGN_DATA_FOR_ECRECOVER"

definition SIGN_DATA_CONTENT_TYPES :: "string list" where
  "SIGN_DATA_CONTENT_TYPES = [SIGN_DATA_FOR_VALIDATOR, SIGN_DATA_FOR_CLIQUE, SIGN_DATA_FOR_ECRECOVER]"

text \<open>\<open>NULL_ADDRESS\<close> of \<open>nucypher.blockchain.eth.constants\<close>, a module that is not
  among the sources: the zero address.\<close>

definition NULL_ADDRESS :: string where
  "NULL_ADDRESS = ''0x'' @ replicate 40 CHR ''0''"

text \<open>
  A Clef signer: the path of the IPC endpoint and the provider's blocking request
  (\<open>w3.manager.request_blocking\<close>), whose answer may depend on the requests made so far.
  The state of the world is the list of the requests made.
\<close>

type_synonym ipc_log = "(string \<times> pyval list) list"

record clef_signer =
  ipc_path :: string
  request_blocking :: "ipc_log \<Rightarrow> string \<Rightarrow> pyval list \<Rightarrow> error + pyval"

definition not_found_message :: "string \<Rightarrow> string" where
  "not_found_message path =
     ''Clef IPC file not found. Is clef running and available at '' @ dquote path @ ''?''"

definition refused_message :: "string \<Rightarrow> string" where
  "refused_message path =
     ''Clef refused connection. Is clef running and available at '' @ dquote path @ ''?''"

text \<open>The two \<open>except\<close> clauses of \<open>__ipc_request\<close>: a connection error is raised
  again, as the same class, with a message that gives the path; every other exception
  passes through.\<close>

definition ipc_error_handler :: "clef_signer \<Rightarrow> error \<Rightarrow> error" where
  "ipc_error_handler self e =
     (case e of
        FileNotFoundError m \<Rightarrow> FileNotFoundError (not_found_message (ipc_path self))
      | ConnectionRefusedError m \<Rightarrow> ConnectionRefusedError (refused_message (ipc_path self))
      | _ \<Rightarrow> e)"

definition ipc_request :: "clef_signer \<Rightarrow> string \<Rightarrow> pyval list \<Rightarrow> ipc_log \<Rightarrow> ipc_log \<times> (error + pyval)" where
  "ipc_request self endpoint request_args log =
     (log @ [(endpoint, request_args)],
      case request_blocking self log endpoint request_args of
        Inl e \<Rightarrow> Inl (ipc_error_handler self e)
      | Inr response \<Rightarrow> Inr response)"

text \<open>A list comprehension over a function that may raise.\<close>

fun map_raising :: "('a \<Rightarrow> error + 'b) \<Rightarrow> 'a list \<Rightarrow> error + 'b list" where
  "map_raising f [] = Inr []"
| "map_raising f (x # xs) =
     (case f x of
        Inl e \<Rightarrow> Inl e
      | Inr y \<Rightarrow> (case map_raising f xs of Inl e \<Rightarrow> Inl e | Inr ys \<Rightarrow> Inr (y # ys)))"

text \<open>The \<open>accounts\<close> property. The daemon answers \<open>account_list\<close> with a list;
  iterating over an answer of another type is a \<open>TypeError\<close> here.\<close>

definition ClefSigner_accounts :: "eth_lib \<Rightarrow> clef_signer \<Rightarrow> ipc_log \<Rightarrow> ipc_log \<times> (error + string list)" where
  "ClefSigner_accounts lib self log =
     (case ipc_request self ''account_list'' [] log of
        (log', Inl e) \<Rightarrow> (log', Inl e)
      | (log', Inr (PList normalized_addresses)) \<Rightarrow>
          (log', map_raising (to_checksum_address lib) normalized_addresses)
      | (log', Inr v) \<Rightarrow> (log', Inl (TypeError (squote (type_name v) @ '' object is not iterable''))))"

text \<open>
  \<open>eth_utils.apply_formatters_to_dict\<close>: the items in their order, each through the
  formatter of its key when there is one. The library rewrites the message of a
  \<open>ValueError\<close> or \<open>TypeError\<close> of a formatter; the class is the formatter's.
\<close>

fun apply_formatters_to_dict ::
    "(string \<times> (pyval \<Rightarrow> error + pyval)) list \<Rightarrow> (string \<times> pyval) list
      \<Rightarrow> error + (string \<times> pyval) list" where
  "apply_formatters_to_dict formatters [] = Inr []"
| "apply_formatters_to_dict formatters ((key, item) # rest) =
     (case (case map_of formatters key of None \<Rightarrow> Inr item | Some f \<Rightarrow> f item) of
        Inl e \<Rightarrow> Inl e
      | Inr item' \<Rightarrow>
          (case apply_formatters_to_dict formatters rest of
             Inl e \<Rightarrow> Inl e
           | Inr d \<Rightarrow> Inr ((key, item') # d)))"

definition checksum_formatter :: "eth_lib \<Rightarrow> pyval \<Rightarrow> error + pyval" where
  "checksum_formatter lib v = map_sum id PStr (to_checksum_address lib v)"

definition clef_formatters :: "eth_lib \<Rightarrow> (string \<times> (pyval \<Rightarrow> error + pyval)) list" where
  "clef_formatters lib =
     [(''nonce'', toHex lib), (''gasPrice'', toHex lib), (''gas'', toHex lib),
      (''value'', toHex lib), (''chainId'', toHex lib), (''from'', checksum_formatter lib)]"

text \<open>\<open>HexBytes(signed.raw)\<close>: the attribute \<open>raw\<close> of the daemon's answer.\<close>

definition raw_of :: "pyval \<Rightarrow> error + pyval" where
  "raw_of signed_tx =
     (case signed_tx of
        PDict d \<Rightarrow>
          (case map_of d ''raw'' of
             Some raw \<Rightarrow> Inr raw
           | None \<Rightarrow> Inl (AttributeError ''raw''))
      | _ \<Rightarrow> Inl (AttributeError ''raw''))"

text \<open>
  \<open>ClefSigner.sign_transaction\<close>, up to the request: an empty byte string as \<open>to\<close>
  becomes \<open>None\<close>; another truthy \<open>to\<close> gets the checksum formatter; a falsy \<open>to\<close>
  that is not \<open>b''\<close> is left as it is. Then the formatters are applied.
\<close>

definition ClefSigner_format_transaction ::
    "eth_lib \<Rightarrow> (string \<times> pyval) list \<Rightarrow> error + (string \<times> pyval) list" where
  "ClefSigner_format_transaction lib transaction_dict =
     (case getitem transaction_dict ''to'' PStr of
        Inl e \<Rightarrow> Inl e
      | Inr to \<Rightarrow>
          (if to = PBytes [] then
             apply_formatters_to_dict (clef_formatters lib)
               (AList.update ''to'' PNone transaction_dict)
           else if truthy to then
             apply_formatters_to_dict (clef_formatters lib @ [(''to'', checksum_formatter lib)])
               transaction_dict
           else apply_formatters_to_dict (clef_formatters lib) transaction_dict))"

text \<open>The request \<open>account_signTransaction\<close> and \<open>HexBytes(signed.raw)\<close>.\<close>

definition ClefSigner_sign_transaction_body ::
    "eth_lib \<Rightarrow> clef_signer \<Rightarrow> (string \<times> pyval) list \<Rightarrow> ipc_log \<Rightarrow> ipc_log \<times> (error + pyval)" where
  "ClefSigner_sign_transaction_body lib self transaction_dict log =
     (case ClefSigner_format_transaction lib transaction_dict of
        Inl e \<Rightarrow> (log, Inl e)
      | Inr formatted_transaction \<Rightarrow>
          (case ipc_request self ''account_signTransaction'' [PDict formatted_transaction] log of
             (log', Inl e) \<Rightarrow> (log', Inl e)
           | (log', Inr signed_tx) \<Rightarrow>
               (log', case raw_of signed_tx of Inl e \<Rightarrow> Inl e | Inr raw \<Rightarrow> HexBytes lib raw)))"

definition ClefSigner_sign_transaction ::
    "eth_lib \<Rightarrow> clef_signer \<Rightarrow> (string \<times> pyval) list \<Rightarrow> (ipc_log, pyval) operation" where
  "ClefSigner_sign_transaction lib self transaction_dict =
     wrapped lib [(''transaction_dict'', False, PDict transaction_dict)]
       (plain (ClefSigner_sign_transaction_body lib self transaction_dict))"

text \<open>\<open>Web3.toHex\<close> of a byte string: \<open>0x\<close> and two hexadecimal digits per byte.\<close>

definition hex_digit :: "nat \<Rightarrow> char" where
  "hex_digit n = ''0123456789abcdef'' ! (n mod 16)"

definition bytes_toHex :: "8 word list \<Rightarrow> string" where
  "bytes_toHex b = ''0x'' @ concat (map (\<lambda>w. [hex_digit (unat w div 16), hex_digit (unat w)]) b)"

text \<open>
  \<open>ClefSigner.sign_message\<close>, up to the request: the arguments of \<open>account_signData\<close>,
  or the exception of the checks. \<open>py_str\<close> gets the tuple of the valid types as a list.
\<close>

definition ClefSigner_sign_data_arguments ::
    "eth_lib \<Rightarrow> pyval \<Rightarrow> pyval \<Rightarrow> pyval \<Rightarrow> pyval \<Rightarrow> error + pyval list" where
  "ClefSigner_sign_data_arguments lib account message content_type validator_address =
     (let message' = (case message of PBytes b \<Rightarrow> PStr (bytes_toHex b) | _ \<Rightarrow> message)
      in if truthy content_type \<and> content_type \<notin> PStr ` set SIGN_DATA_CONTENT_TYPES then
           Inl (ValueError
                  (py_str lib content_type @ '' is not a valid content type. Valid types are ''
                     @ py_str lib (PList (map PStr SIGN_DATA_CONTENT_TYPES))))
         else
           (let content_type' = (if \<not> truthy content_type then PStr DEFAULT_CONTENT_TYPE
                                 else content_type)
            in if content_type' = PStr SIGN_DATA_FOR_VALIDATOR then
                 (if \<not> truthy validator_address \<or> validator_address = PStr NULL_ADDRESS then
                    Inl (ValueError
                           ''When using the intended validator type, a validator address is required.'')
                  else
                    Inr [content_type', account,
                         PDict [(''address'', validator_address), (''message'', message')]])
               else if content_type' = PStr SIGN_DATA_FOR_ECRECOVER then
                 Inr [content_type', account, message']
               else Inl NotImplementedError))"

text \<open>The request \<open>account_signData\<close> and \<open>HexBytes(signed_data)\<close>.\<close>

definition ClefSigner_sign_message_body ::
    "eth_lib \<Rightarrow> clef_signer \<Rightarrow> pyval \<Rightarrow> pyval \<Rightarrow> pyval \<Rightarrow> pyval \<Rightarrow> ipc_log
      \<Rightarrow> ipc_log \<times> (error + pyval)" where
  "ClefSigner_sign_message_body lib self account message content_type validator_address log =
     (case ClefSigner_sign_data_arguments lib account message content_type validator_address of
        Inl e \<Rightarrow> (log, Inl e)
      | Inr request_args \<Rightarrow>
          (case ipc_request self ''account_signData'' request_args log of
             (log', Inl e) \<Rightarrow> (log', Inl e)
           | (log', Inr signed_data) \<Rightarrow> (log', HexBytes lib signed_data)))"

text \<open>
  The bound parameters of \<open>sign_message(account, message, content_type,
  validator_address)\<close> when the four arguments are positional, or keywords written in
  the order of the declaration.
\<close>

definition sign_message_positional :: "pyval \<Rightarrow> pyval \<Rightarrow> pyval \<Rightarrow> pyval \<Rightarrow> param list" where
  "sign_message_positional account message content_type validator_address =
     [(''account'', False, account), (''message'', False, message),
      (''content_type'', True, content_type), (''validator_address'', True, validator_address),
      (''kwargs'', False, PDict [])]"

text \<open>
  The decorated \<open>sign_message\<close>. It has two address parameters, so the order of the
  call matters to the validator: \<open>params\<close> is the call, that is the bound parameters in
  the order of \<open>getcallargs\<close>, binding the four names to the four values the body gets.
  (Every other decorated method here has one address parameter, \<open>account\<close>, or none, and
  the order of its call makes no difference.)
\<close>

definition ClefSigner_sign_message ::
    "eth_lib \<Rightarrow> clef_signer \<Rightarrow> param list \<Rightarrow> pyval \<Rightarrow> pyval \<Rightarrow> pyval \<Rightarrow> pyval
      \<Rightarrow> (ipc_log, pyval) operation" where
  "ClefSigner_sign_message lib self params account message content_type validator_address =
     wrapped lib params
       (plain (ClefSigner_sign_message_body lib self account message content_type validator_address))"

section \<open>signers.py: TrezorSigner\<close>

definition ETH_CHAIN_ROOT :: int where
  "ETH_CHAIN_ROOT = 60"

text \<open>
  The calls to the device, as \<open>trezorlib.ethereum\<close> makes them. The state of the world
  is the list of the calls made so far; the device's answer may depend on it.
\<close>

datatype device_call =
    GetAddress "int list" bool
  | SignMessage "int list" pyval
  | SignTx "int list" "(string \<times> pyval) list"

text \<open>
  A Trezor signer: the address cache \<open>__addresses\<close>, from an address to its HD path, and
  the three functions of the client. \<open>ethereum_sign_message\<close> answers with the signature
  and the address, \<open>ethereum_sign_tx\<close> with \<open>v\<close>, \<open>r\<close> and \<open>s\<close>.
\<close>

record trezor_signer =
  addresses :: "(pyval \<times> int list) list"
  ethereum_get_address :: "device_call list \<Rightarrow> int list \<Rightarrow> bool \<Rightarrow> error + pyval"
  ethereum_sign_message :: "device_call list \<Rightarrow> int list \<Rightarrow> pyval \<Rightarrow> error + pyval \<times> pyval"
  ethereum_sign_tx ::
    "device_call list \<Rightarrow> int list \<Rightarrow> (string \<times> pyval) list \<Rightarrow> error + pyval \<times> pyval \<times> pyval"

text \<open>Reading an attribute that neither \<open>TrezorSigner\<close> nor \<open>Signer\<close> declares.\<close>

definition no_attribute :: "string \<Rightarrow> error" where
  "no_attribute name =
     AttributeError (squote ''TrezorSigner'' @ '' object has no attribute '' @ squote name)"

text \<open>
  The decorator \<open>__handle_device_call\<close>. Its two \<open>except\<close> clauses: the handler of
  \<open>USBErrorNoDevice\<close> raises \<open>NoDeviceDetected\<close>; the handler of \<open>USBErrorBusy\<close>
  evaluates \<open>trezor.DeviceError\<close>, an attribute the class does not have. Every other
  exception and every result passes through.
\<close>

definition no_device_message :: string where
  "no_device_message =
     ''The client cannot communicate to the TREZOR USB device. Was it disconnected?''"

definition device_error_handler :: "error \<Rightarrow> error" where
  "device_error_handler e =
     (case e of
        USBErrorNoDevice \<Rightarrow> NoDeviceDetected no_device_message
      | USBErrorBusy \<Rightarrow> no_attribute ''DeviceError''
      | _ \<Rightarrow> e)"

definition handle_device_call :: "('w \<Rightarrow> 'w \<times> (error + 'a)) \<Rightarrow> 'w \<Rightarrow> 'w \<times> (error + 'a)" where
  "handle_device_call device_func w =
     (case device_func w of
        (w', Inl e) \<Rightarrow> (w', Inl (device_error_handler e))
      | (w', Inr result) \<Rightarrow> (w', Inr result))"

definition hd_path_text :: "eth_lib \<Rightarrow> int \<Rightarrow> string" where
  "hd_path_text lib index =
     ''44'' @ [CHR 0x27] @ ''/'' @ py_str lib (PInt ETH_CHAIN_ROOT) @ [CHR 0x27] @ ''/0''
       @ [CHR 0x27] @ ''/0/'' @ py_str lib (PInt index)"

definition get_address_path :: "eth_lib \<Rightarrow> trezor_signer \<Rightarrow> int option \<Rightarrow> pyval \<Rightarrow> error + int list" where
  "get_address_path lib self index checksum_address =
     (if index \<noteq> None \<and> truthy checksum_address then
        Inl (ValueError ''Expected index or checksum address; Got both.'')
      else
        (case index of
           Some i \<Rightarrow> parse_path lib (hd_path_text lib i)
         | None \<Rightarrow>
             (if \<not> hashable checksum_address then
                Inl (TypeError (''unhashable type: '' @ squote (type_name checksum_address)))
              else
                (case getitem (addresses self) checksum_address id of
                   Inl (KeyError k) \<Rightarrow>
                     Inl (RuntimeError
                            (py_str lib checksum_address
                               @ '' was not loaded into the device address cache.''))
                 | Inl e \<Rightarrow> Inl e
                 | Inr hd_path \<Rightarrow> Inr hd_path))))"

text \<open>\<open>get_address\<close>, up to the device call: a truthy \<open>hd_path\<close> is used as it is,
  whatever \<open>index\<close> is; without one the path comes from \<open>index\<close>.\<close>

definition TrezorSigner_get_address_hd_path ::
    "eth_lib \<Rightarrow> trezor_signer \<Rightarrow> int option \<Rightarrow> int list option \<Rightarrow> error + int list" where
  "TrezorSigner_get_address_hd_path lib self index hd_path =
     (case hd_path of
        Some (x # xs) \<Rightarrow> Inr (x # xs)
      | _ \<Rightarrow>
          (case index of
             None \<Rightarrow> Inl (ValueError ''No index or HD path supplied.'')
           | Some i \<Rightarrow> get_address_path lib self index PNone))"

definition TrezorSigner_get_address_body ::
    "eth_lib \<Rightarrow> trezor_signer \<Rightarrow> int option \<Rightarrow> int list option \<Rightarrow> bool \<Rightarrow> device_call list
      \<Rightarrow> device_call list \<times> (error + pyval)" where
  "TrezorSigner_get_address_body lib self index hd_path show_display log =
     (case TrezorSigner_get_address_hd_path lib self index hd_path of
        Inl e \<Rightarrow> (log, Inl e)
      | Inr n \<Rightarrow> (log @ [GetAddress n show_display], ethereum_get_address self log n show_display))"

definition TrezorSigner_get_address ::
    "eth_lib \<Rightarrow> trezor_signer \<Rightarrow> int option \<Rightarrow> int list option \<Rightarrow> bool \<Rightarrow> device_call list
      \<Rightarrow> device_call list \<times> (error + pyval)" where
  "TrezorSigner_get_address lib self index hd_path show_display =
     handle_device_call (TrezorSigner_get_address_body lib self index hd_path show_display)"

text \<open>\<open>TrezorSigner.sign_message\<close>. After the device has signed, the method reads
  \<open>self.Signature\<close>, which is not declared.\<close>

definition TrezorSigner_sign_message_body ::
    "eth_lib \<Rightarrow> trezor_signer \<Rightarrow> pyval \<Rightarrow> pyval \<Rightarrow> device_call list
      \<Rightarrow> device_call list \<times> (error + pyval \<times> pyval)" where
  "TrezorSigner_sign_message_body lib self message checksum_address log =
     (case get_address_path lib self None checksum_address of
        Inl e \<Rightarrow> (log, Inl e)
      | Inr hd_path \<Rightarrow>
          (log @ [SignMessage hd_path message],
           case ethereum_sign_message self log hd_path message of
             Inl e \<Rightarrow> Inl e
           | Inr sig \<Rightarrow> Inl (no_attribute ''Signature'')))"

definition TrezorSigner_sign_message ::
    "eth_lib \<Rightarrow> trezor_signer \<Rightarrow> pyval \<Rightarrow> pyval \<Rightarrow> device_call list
      \<Rightarrow> device_call list \<times> (error + pyval \<times> pyval)" where
  "TrezorSigner_sign_message lib self message checksum_address =
     handle_device_call (TrezorSigner_sign_message_body lib self message checksum_address)"

text \<open>
  \<open>eth_utils.apply_key_map\<close>: a key of the dictionary that is no key of the map but
  the new name of a key that is present is a conflict, a \<open>KeyError\<close>; otherwise the
  items keep their order and the mapped keys get their new names.
\<close>

definition apply_key_map ::
    "(string \<times> string) list \<Rightarrow> (string \<times> pyval) list \<Rightarrow> error + (string \<times> pyval) list" where
  "apply_key_map key_mappings d =
     (let key_conflicts =
            filter (\<lambda>k. k \<notin> fst ` set key_mappings
                        \<and> k \<in> snd ` set (filter (\<lambda>(k', v'). v' \<in> fst ` set d) key_mappings))
                   (map fst d)
      in if key_conflicts \<noteq> [] then
           Inl (KeyError (PStr ''Could not apply key map due to conflicting key(s)''))
         else
           Inr (map (\<lambda>(key, item).
                       (case map_of key_mappings key of
                          Some key' \<Rightarrow> (key', item)
                        | None \<Rightarrow> (key, item))) d))"

definition trezor_transaction_keys :: "(string \<times> string) list" where
  "trezor_transaction_keys =
     [(''gas'', ''gas_limit''), (''gasPrice'', ''gas_price''), (''chainId'', ''chain_id'')]"

text \<open>The \<open>data\<close> of both dictionaries through \<open>Web3.toBytes(HexBytes(_))\<close>, when the
  device's dictionary has a truthy one.\<close>

definition format_data ::
    "eth_lib \<Rightarrow> (string \<times> pyval) list \<Rightarrow> (string \<times> pyval) list
      \<Rightarrow> error + (string \<times> pyval) list \<times> (string \<times> pyval) list" where
  "format_data lib trezor_transaction transaction_dict =
     (case map_of trezor_transaction ''data'' of
        Some d \<Rightarrow>
          (if truthy d then
             (case toBytes lib d of
                Inl e \<Rightarrow> Inl e
              | Inr b \<Rightarrow>
                  (case getitem transaction_dict ''data'' PStr of
                     Inl e \<Rightarrow> Inl e
                   | Inr d' \<Rightarrow>
                       (case toBytes lib d' of
                          Inl e \<Rightarrow> Inl e
                        | Inr b' \<Rightarrow>
                            Inr (AList.update ''data'' b trezor_transaction,
                                 AList.update ''data'' b' transaction_dict))))
           else Inr (trezor_transaction, transaction_dict))
      | None \<Rightarrow> Inr (trezor_transaction, transaction_dict))"

text \<open>
  The constructor of \<open>Transaction\<close> with \<open>v\<close>, \<open>r\<close>, \<open>s\<close> and the dictionary as
  keyword arguments: the dictionary must give the other six fields and nothing else.
\<close>

definition transaction_fields :: "string list" where
  "transaction_fields = [''nonce'', ''gasPrice'', ''gas'', ''to'', ''value'', ''data'']"

definition new_Transaction :: "int \<Rightarrow> int \<Rightarrow> int \<Rightarrow> (string \<times> pyval) list \<Rightarrow> error + transaction" where
  "new_Transaction v r s kwargs =
     (if set (map fst kwargs) = set transaction_fields then Inr (Transaction v r s kwargs)
      else Inl (TypeError ''Transaction: missing or unexpected field''))"

text \<open>What \<open>TrezorSigner.sign_transaction\<close> returns: the RLP bytes, or the transaction
  itself when \<open>rlp_encoded\<close> is false.\<close>

datatype signed_transaction = Encoded "8 word list" | Unencoded transaction

text \<open>The last part of \<open>TrezorSigner.sign_transaction\<close>, after the device has signed:
  \<open>chainId\<close> is deleted, \<open>to\<close> is set to the canonical form of \<open>checksum_address\<close>,
  the value popped from \<open>from\<close>, and the transaction is built and encoded.\<close>

definition serialize_signed ::
    "eth_lib \<Rightarrow> pyval \<Rightarrow> pyval \<times> pyval \<times> pyval \<Rightarrow> (string \<times> pyval) list \<Rightarrow> bool
      \<Rightarrow> error + signed_transaction" where
  "serialize_signed lib checksum_address vrs transaction_dict rlp_encoded =
     (case vrs of (v, r, s) \<Rightarrow>
        (case getitem transaction_dict ''chainId'' PStr of
           Inl e \<Rightarrow> Inl e
         | Inr c \<Rightarrow>
             (case to_canonical_address lib checksum_address of
                Inl e \<Rightarrow> Inl e
              | Inr canonical \<Rightarrow>
                  (case to_int lib v of Inl e \<Rightarrow> Inl e | Inr v' \<Rightarrow>
                  (case to_int lib r of Inl e \<Rightarrow> Inl e | Inr r' \<Rightarrow>
                  (case to_int lib s of Inl e \<Rightarrow> Inl e | Inr s' \<Rightarrow>
                  (case new_Transaction v' r' s'
                          (AList.update ''to'' (PBytes canonical)
                             (AList.delete ''chainId'' transaction_dict)) of
                     Inl e \<Rightarrow> Inl e
                   | Inr signed_tx \<Rightarrow>
                       (if rlp_encoded then map_sum id Encoded (rlp_encode lib signed_tx)
                        else Inr (Unencoded signed_tx)))))))))"

text \<open>
  \<open>TrezorSigner.sign_transaction\<close>, up to the device call: the sender is popped from
  \<open>from\<close>, the fields are checked, the keys are renamed for the device, \<open>data\<close> is
  formatted and the HD path of the sender is looked up. The result is the sender, the
  device's dictionary, the caller's dictionary and the path.
\<close>

definition TrezorSigner_prepare_transaction ::
    "eth_lib \<Rightarrow> trezor_signer \<Rightarrow> (string \<times> pyval) list
      \<Rightarrow> error + pyval \<times> (string \<times> pyval) list \<times> (string \<times> pyval) list \<times> int list" where
  "TrezorSigner_prepare_transaction lib self transaction_dict =
     (case getitem transaction_dict ''from'' PStr of
        Inl e \<Rightarrow> Inl e
      | Inr checksum_address \<Rightarrow>
          (let popped = AList.delete ''from'' transaction_dict
           in case assert_valid_fields lib popped of
                Some e \<Rightarrow> Inl e
              | None \<Rightarrow>
                  (case apply_key_map trezor_transaction_keys popped of
                     Inl e \<Rightarrow> Inl e
                   | Inr trezor_transaction \<Rightarrow>
                       (case format_data lib trezor_transaction popped of
                          Inl e \<Rightarrow> Inl e
                        | Inr (trezor_transaction', transaction_dict') \<Rightarrow>
                            (case get_address_path lib self None checksum_address of
                               Inl e \<Rightarrow> Inl e
                             | Inr n \<Rightarrow>
                                 Inr (checksum_address, trezor_transaction', transaction_dict', n))))))"

definition TrezorSigner_sign_transaction_body ::
    "eth_lib \<Rightarrow> trezor_signer \<Rightarrow> (string \<times> pyval) list \<Rightarrow> bool \<Rightarrow> device_call list
      \<Rightarrow> device_call list \<times> (error + signed_transaction)" where
  "TrezorSigner_sign_transaction_body lib self transaction_dict rlp_encoded log =
     (case TrezorSigner_prepare_transaction lib self transaction_dict of
        Inl e \<Rightarrow> (log, Inl e)
      | Inr (checksum_address, trezor_transaction, transaction_dict', n) \<Rightarrow>
          (log @ [SignTx n trezor_transaction],
           case ethereum_sign_tx self log n trezor_transaction of
             Inl e \<Rightarrow> Inl e
           | Inr vrs \<Rightarrow>
               serialize_signed lib checksum_address vrs transaction_dict' rlp_encoded))"

definition TrezorSigner_sign_transaction ::
    "eth_lib \<Rightarrow> trezor_signer \<Rightarrow> (string \<times> pyval) list \<Rightarrow> bool \<Rightarrow> device_call list
      \<Rightarrow> device_call list \<times> (error + signed_transaction)" where
  "TrezorSigner_sign_transaction lib self transaction_dict rlp_encoded =
     handle_device_call (TrezorSigner_sign_transaction_body lib self transaction_dict rlp_encoded)"

section \<open>Example inputs\<close>

text \<open>
  Two accounts, in checksummed, lower-case and canonical (20 bytes) form, and a library
  instance for concrete runs: each library function is tabulated on the values the runs
  below give it.
\<close>

definition addr_A :: string where
  "addr_A = ''0x5aAeb6053F3E94C9b9A09f33669435E7Ef1BeAed''"

definition addr_B :: string where
  "addr_B = ''0xfB6916095ca1df60bB79Ce92cE3Ea74c37c5d359''"

definition addr_A_lower :: string where
  "addr_A_lower = ''0x5aaeb6053f3e94c9b9a09f33669435e7ef1beaed''"

definition canonical_A :: "8 word list" where
  "canonical_A = [0x5a, 0xae, 0xb6, 0x05, 0x3f, 0x3e, 0x94, 0xc9, 0xb9, 0xa0,
                  0x9f, 0x33, 0x66, 0x94, 0x35, 0xe7, 0xef, 0x1b, 0xea, 0xed]"

definition canonical_B :: "8 word list" where
  "canonical_B = [0xfb, 0x69, 0x16, 0x09, 0x5c, 0xa1, 0xdf, 0x60, 0xbb, 0x79,
                  0xce, 0x92, 0xce, 0x3e, 0xa7, 0x4c, 0x37, 0xc5, 0xd3, 0x59]"

definition example_checksum :: "pyval \<Rightarrow> error + string" where
  "example_checksum v =
     (if v = PStr addr_A \<or> v = PStr addr_A_lower then Inr addr_A
      else if v = PStr addr_B then Inr addr_B
      else Inl (ValueError ''Unknown format''))"

definition example_canonical :: "pyval \<Rightarrow> error + 8 word list" where
  "example_canonical v =
     (if v = PStr addr_A \<or> v = PStr addr_A_lower then Inr canonical_A
      else if v = PStr addr_B then Inr canonical_B
      else Inl (ValueError ''Unknown format''))"

text \<open>\<open>str\<close> of a text is the text, of an integer its decimal digits; \<open>fuel\<close> bounds
  the number of digits.\<close>

fun decimal :: "nat \<Rightarrow> nat \<Rightarrow> string" where
  "decimal 0 n = []"
| "decimal (Suc fuel) n =
     (if n < 10 then [''0123456789'' ! n]
      else decimal fuel (n div 10) @ [''0123456789'' ! (n mod 10)])"

definition example_str :: "pyval \<Rightarrow> string" where
  "example_str v =
     (case v of
        PStr s \<Rightarrow> s
      | PInt i \<Rightarrow>
          (if i < 0 then CHR ''-'' # decimal (Suc (nat (- i))) (nat (- i))
           else decimal (Suc (nat i)) (nat i))
      | _ \<Rightarrow> type_name v)"

definition path_0 :: "int list" where
  "path_0 = [0x8000002C, 0x8000003C, 0x80000000, 0, 0]"

definition example_parse_path :: "string \<Rightarrow> error + int list" where
  "example_parse_path s =
     (if s = ''44'' @ [CHR 0x27] @ ''/60'' @ [CHR 0x27] @ ''/0'' @ [CHR 0x27] @ ''/0/0''
        then Inr path_0
      else Inl (ValueError ''Invalid BIP32 path''))"

definition bytes_only :: "pyval \<Rightarrow> error + pyval" where
  "bytes_only v = (case v of PBytes b \<Rightarrow> Inr v | _ \<Rightarrow> Inl (TypeError (type_name v)))"

definition int_only :: "pyval \<Rightarrow> error + int" where
  "int_only v = (case v of PInt i \<Rightarrow> Inr i | _ \<Rightarrow> Inl (TypeError (type_name v)))"

definition example_decrypt :: "pyval \<Rightarrow> pyval \<Rightarrow> error + local_account" where
  "example_decrypt key_metadata password =
     (if password = PStr ''correct-pw'' then Inr (LocalAccount [0x01])
      else Inl (ValueError ''MAC mismatch''))"

text \<open>A stand-in for the RLP encoding: it keeps the bytes of the recipient only.\<close>

definition example_rlp :: "transaction \<Rightarrow> error + 8 word list" where
  "example_rlp t =
     (case t of Transaction v r s d \<Rightarrow>
        (case map_of d ''to'' of
           Some (PBytes b) \<Rightarrow> Inr b
         | _ \<Rightarrow> Inl (TypeError ''to'')))"

definition example_lib :: eth_lib where
  "example_lib =
     \<lparr> py_str = example_str,
       is_hex_address =
         (\<lambda>s. length s = 42 \<and> take 2 s = ''0x''
                \<and> list_all (\<lambda>c. c \<in> set ''0123456789abcdefABCDEF'') (drop 2 s)),
       to_checksum_address = example_checksum,
       to_canonical_address = example_canonical,
       toHex = (\<lambda>v. Inr v),
       toBytes = bytes_only,
       HexBytes = bytes_only,
       to_int = int_only,
       assert_valid_fields = (\<lambda>d. None),
       parse_path = example_parse_path,
       rlp_encode = example_rlp,
       Account_decrypt = example_decrypt,
       account_sign_transaction = (\<lambda>k d. Inr (PBytes [])),
       account_sign_message = (\<lambda>k m. Inr (PBytes [])) \<rparr>"

definition example_operation :: "(nat, pyval) operation" where
  "example_operation cache w = ((cache, Suc w), Inr (PStr ''executed''))"



text \<open>A library instance that takes no text for an address.\<close>

definition strict_lib :: eth_lib where
  "strict_lib = example_lib \<lparr> is_hex_address := (\<lambda>s. False) \<rparr>"

text \<open>A keystore with the key file of account A, locked.\<close>

definition example_keystore :: keystore_signer where
  "example_keystore =
     \<lparr> keys = [(PStr addr_A, PDict [(''address'', PStr addr_A_lower), (''version'', PInt 3)])],
       signers = [] \<rparr>"

text \<open>The same keystore after account A has been unlocked.\<close>

definition unlocked_keystore :: keystore_signer where
  "unlocked_keystore = example_keystore \<lparr> signers := [(PStr addr_A, LocalAccount [0x01])] \<rparr>"

text \<open>A Clef signer whose endpoint file does not exist.\<close>

definition example_clef :: clef_signer where
  "example_clef =
     \<lparr> ipc_path = ''/home/user/.clef/clef.ipc'',
       request_blocking =
         (\<lambda>log endpoint args. Inl (FileNotFoundError ''[Errno 2] No such file or directory'')) \<rparr>"

text \<open>A Trezor signer with account A in its address cache, on a device that answers
  every call.\<close>

definition example_trezor :: trezor_signer where
  "example_trezor =
     \<lparr> addresses = [(PStr addr_A, path_0)],
       ethereum_get_address = (\<lambda>log n show_display. Inr (PStr addr_A)),
       ethereum_sign_message = (\<lambda>log n message. Inr (PBytes [0x01], PStr addr_A)),
       ethereum_sign_tx = (\<lambda>log n tx. Inr (PInt 37, PInt 1, PInt 2)) \<rparr>"

text \<open>The same signer on a device whose transfers time out.\<close>

definition timeout_trezor :: trezor_signer where
  "timeout_trezor =
     example_trezor
       \<lparr> ethereum_get_address := (\<lambda>log n show_display. Inl (USBErrorOther ''LIBUSB_ERROR_TIMEOUT'')) \<rparr>"

text \<open>The same signer on a device that has been unplugged.\<close>

definition unplugged_trezor :: trezor_signer where
  "unplugged_trezor =
     example_trezor
       \<lparr> ethereum_get_address := (\<lambda>log n show_display. Inl USBErrorNoDevice) \<rparr>"

text \<open>A transfer from A to B, a transfer from B to A, and a contract creation by A.\<close>

definition transfer_tx :: "(string \<times> pyval) list" where
  "transfer_tx =
     [(''nonce'', PInt 0), (''gasPrice'', PInt 1), (''gas'', PInt 21000), (''to'', PStr addr_B),
      (''value'', PInt 1), (''data'', PBytes []), (''chainId'', PInt 1), (''from'', PStr addr_A)]"


definition creation_tx :: "(string \<times> pyval) list" where
  "creation_tx =
     [(''nonce'', PInt 0), (''gasPrice'', PInt 1), (''gas'', PInt 3000000), (''to'', PBytes []),
      (''value'', PInt 0), (''data'', PBytes [0x60, 0x80]), (''chainId'', PInt 1),
      (''from'', PStr addr_A)]"

section \<open>Properties of the address validator\<close>

lemma validate_addresses_grows:
  "fst (validate_addresses lib ps cache) \<supseteq> cache"
proof (induction ps arbitrary: cache)
  case Nil
  show ?case by simp
next
  case (Cons p ps)
  obtain n opt v where p: "p = (n, opt, v)" by (cases p)
  have step: "cache \<subseteq> add_verified v cache" by (cases v) auto
  show ?case
    using Cons.IH [of cache] Cons.IH [of "add_verified v cache"] step
    by (auto simp: p)
qed




lemma sign_message_positional_addresses:
  "addresses_as_parameters (sign_message_positional a m c v)
     = [(''account'', False, a), (''validator_address'', True, v)]"
  by (simp add: addresses_as_parameters_def sign_message_positional_def endswith_def
        parameter_name_suffix_def aliases_def)



lemma example_checksum_A: "is_checksum_address example_lib (PStr addr_A)"
  by (simp add: is_checksum_address_def example_lib_def example_checksum_def addr_A_def)

lemma example_checksum_B: "is_checksum_address example_lib (PStr addr_B)"
  by (simp add: is_checksum_address_def example_lib_def example_checksum_def addr_A_def
        addr_B_def addr_A_lower_def)



lemma validate_addresses_sound:
  "\<forall>s \<in> cache. is_checksum_address lib (PStr s)
     \<Longrightarrow> \<forall>s \<in> fst (validate_addresses lib ps cache). is_checksum_address lib (PStr s)"
proof (induction ps arbitrary: cache)
  case Nil
  then show ?case by simp
next
  case (Cons p ps)
  obtain n opt v where p: "p = (n, opt, v)" by (cases p)
  have add: "is_checksum_address lib v \<Longrightarrow> \<forall>s \<in> add_verified v cache. is_checksum_address lib (PStr s)"
    using Cons.prems by (cases v) auto
  show ?case
    using Cons.IH [OF Cons.prems] Cons.IH [OF add]
    by (simp add: p Cons.prems)
qed

lemma run_validations_sound:
  "\<forall>s \<in> cache. is_checksum_address lib (PStr s)
     \<Longrightarrow> \<forall>s \<in> run_validations lib calls cache. is_checksum_address lib (PStr s)"
proof (induction calls arbitrary: cache)
  case Nil
  then show ?case by simp
next
  case (Cons ps calls)
  show ?case
    using Cons.IH [OF validate_addresses_sound [OF Cons.prems]] by simp
qed

lemma run_validations_grows: "cache \<subseteq> run_validations lib calls cache"
proof (induction calls arbitrary: cache)
  case Nil
  show ?case by simp
next
  case (Cons ps calls)
  show ?case
    using Cons.IH [of "fst (validate_addresses lib (addresses_as_parameters ps) cache)"]
      validate_addresses_grows [of cache lib "addresses_as_parameters ps"]
    by auto
qed

lemma validate_addresses_single_success:
  "validate_addresses lib [(name, opt, PStr s)] cache = (cache', None)
     \<Longrightarrow> s \<in> cache' \<and> (s \<in> cache \<or> is_checksum_address lib (PStr s))"
  by (auto split: if_splits)

text \<open>
  Claim C8. From the empty cache of a fresh process and after any history of decorated
  calls, if the validation of a text \<open>s\<close> succeeds, then \<open>s\<close> is its own canonical
  (checksummed) form and is in the cache that the validation leaves. It is still in the
  cache after any further decorated calls, and from then on its validation succeeds by
  the cache alone: without changing the cache and whatever the library would say of
  \<open>s\<close>, so also with a library that takes no text for an address. A decorated operation
  on it runs.
\<close>

theorem revalidation_is_cache_hit:
  assumes start: "cache = run_validations lib history {}"
      and first: "validate_addresses lib [(name, opt, PStr s)] cache = (cache', None)"
      and later: "cache'' = run_validations lib' calls cache'"
  shows "to_checksum_address lib (PStr s) = Inr s
       \<and> s \<in> cache' \<and> s \<in> cache''
       \<and> validate_addresses lib'' [(name', opt', PStr s)] cache'' = (cache'', None)
       \<and> wrapped lib'' [(name', opt', PStr s)] func cache'' w = func cache'' w"
proof -
  have inv: "\<forall>a \<in> cache. is_checksum_address lib (PStr a)"
    unfolding start by (rule run_validations_sound) simp
  from validate_addresses_single_success [OF first]
  have mem: "s \<in> cache'" and ok: "s \<in> cache \<or> is_checksum_address lib (PStr s)"
    by simp_all
  from ok inv have "is_checksum_address lib (PStr s)" by blast
  then have canon: "to_checksum_address lib (PStr s) = Inr s"
    by (simp add: is_checksum_address_def)
  have mem'': "s \<in> cache''"
    using mem run_validations_grows [of cache' lib' calls] by (auto simp: later)
  then have hit: "validate_addresses lib'' [(name', opt', PStr s)] cache'' = (cache'', None)"
    by simp
  have "wrapped lib'' [(name', opt', PStr s)] func cache'' w = func cache'' w"
    using mem'' by (auto simp: wrapped_def addresses_as_parameters_def)
  with canon mem mem'' hit show ?thesis by simp
qed

text \<open>
  Claim C8, for account A validated first and account B validated in between. The second
  validation of A is by a library that takes no text for an address: it succeeds by the
  cache. With the empty cache the same library refuses A.
\<close>

theorem revalidation_is_cache_hit_witness:
  "to_checksum_address example_lib (PStr addr_A) = Inr addr_A
   \<and> addr_A \<in> {addr_A} \<and> addr_A \<in> {addr_A, addr_B}
   \<and> validate_addresses strict_lib [(''account'', False, PStr addr_A)] {addr_A, addr_B}
       = ({addr_A, addr_B}, None)
   \<and> wrapped strict_lib [(''account'', False, PStr addr_A)] example_operation {addr_A, addr_B} 0
       = example_operation {addr_A, addr_B} 0
   \<and> validate_addresses strict_lib [(''account'', False, PStr addr_A)] {}
       = ({}, Some (InvalidChecksumAddress (checksum_message (PStr addr_A))))"
proof -
  have start: "({} :: verified) = run_validations example_lib [] {}" by simp
  have first: "validate_addresses example_lib [(''checksum_address'', False, PStr addr_A)] {}
                 = ({addr_A}, None)"
    using example_checksum_A by simp
  have aap: "addresses_as_parameters [(''account'', False, PStr addr_B)] = [(''account'', False, PStr addr_B)]"
    by (simp add: addresses_as_parameters_def aliases_def)
  have neq: "addr_B \<noteq> addr_A" by (simp add: addr_A_def addr_B_def)
  have later: "{addr_A, addr_B} = run_validations example_lib [[(''account'', False, PStr addr_B)]] {addr_A}"
    using example_checksum_B neq by (auto simp: aap)
  have refused: "validate_addresses strict_lib [(''account'', False, PStr addr_A)] {}
       = ({}, Some (InvalidChecksumAddress (checksum_message (PStr addr_A))))"
    by (simp add: is_checksum_address_def strict_lib_def)
  from revalidation_is_cache_hit [OF start first later, of strict_lib "''account''" False
      example_operation 0] refused
  show ?thesis by simp
qed

section \<open>Properties of the keystore signer\<close>

lemma validate_account:
  "is_checksum_address lib account
     \<Longrightarrow> validate_addresses lib [(name, opt, account)] cache = (add_verified account cache, None)"
  by (cases account) (auto simp: is_checksum_address_def insert_absorb)

lemma wrapped_valid_account:
  assumes "addresses_as_parameters params = [(name, opt, account)]"
      and "is_checksum_address lib account"
  shows "wrapped lib params func cache w = func (add_verified account cache) w"
  unfolding wrapped_def assms(1) validate_account [OF assms(2)] by simp

lemma account_only_unlock:
  "addresses_as_parameters
     [(''account'', False, account), (''password'', False, password), (''duration'', True, duration)]
     = [(''account'', False, account)]"
  by (simp add: addresses_as_parameters_def endswith_def parameter_name_suffix_def aliases_def)

lemma account_only_lock:
  "addresses_as_parameters [(''account'', False, account)] = [(''account'', False, account)]"
  by (simp add: addresses_as_parameters_def aliases_def)

lemma account_only_sign_message:
  "addresses_as_parameters
     [(''account'', False, account), (''message'', False, message), (''kwargs'', False, PDict [])]
     = [(''account'', False, account)]"
  by (simp add: addresses_as_parameters_def endswith_def parameter_name_suffix_def aliases_def)

lemma no_address_in_sign_transaction:
  "addresses_as_parameters [(''transaction_dict'', False, d)] = []"
  by (simp add: addresses_as_parameters_def endswith_def parameter_name_suffix_def aliases_def)

lemma unlock_account_decrypt_error:
  assumes valid: "is_checksum_address lib account"
      and locked: "map_of (signers self) account = None"
      and known: "map_of (keys self) account = Some key_metadata"
      and wrong: "Account_decrypt lib key_metadata password = Inl e"
  shows "KeystoreSigner_unlock_account lib account password duration cache self
           = ((add_verified account cache, self), Inl e)"
  using locked known wrong
  by (simp add: KeystoreSigner_unlock_account_def
        wrapped_valid_account [OF account_only_unlock valid] plain_def
        KeystoreSigner_unlock_account_body_def getitem_def)

lemma get_signer_locked:
  assumes valid: "is_checksum_address lib account"
      and locked: "map_of (signers self) account = None"
      and known: "account \<in> fst ` set (keys self)"
  shows "KeystoreSigner_get_signer lib account cache self
           = ((add_verified account cache, self), Inl (AccountLocked account))"
  using locked known
  by (simp add: KeystoreSigner_get_signer_def
        wrapped_valid_account [OF account_only_lock valid] plain_def
        KeystoreSigner_get_signer_body_def getitem_def)

text \<open>
  Claim C1 at a keystore that holds the key file of account A, locked. Unlocking A with
  a wrong password does not return \<open>False\<close>: the \<open>ValueError\<close> of the decryption leaves
  \<open>unlock_account\<close>. The account stays locked, and signing for it afterwards fails
  with \<open>AccountLocked\<close>.
\<close>

theorem unlock_wrong_password_raises:
  "KeystoreSigner_unlock_account example_lib (PStr addr_A) (PStr ''wrong-pw'') PNone {} example_keystore
     = (({addr_A}, example_keystore), Inl (ValueError ''MAC mismatch''))
   \<and> KeystoreSigner_sign_message example_lib (PStr addr_A) (PBytes []) {addr_A} example_keystore
     = (({addr_A}, example_keystore), Inl (AccountLocked (PStr addr_A)))"
proof -
  have d: "Account_decrypt example_lib
             (PDict [(''address'', PStr addr_A_lower), (''version'', PInt 3)]) (PStr ''wrong-pw'')
           = Inl (ValueError ''MAC mismatch'')"
    by (simp add: example_lib_def example_decrypt_def)
  have u: "KeystoreSigner_unlock_account example_lib (PStr addr_A) (PStr ''wrong-pw'') PNone {} example_keystore
             = ((add_verified (PStr addr_A) {}, example_keystore), Inl (ValueError ''MAC mismatch''))"
    by (rule unlock_account_decrypt_error [OF example_checksum_A _ _ d])
       (simp_all add: example_keystore_def)
  have g: "KeystoreSigner_get_signer example_lib (PStr addr_A) {addr_A} example_keystore
             = ((add_verified (PStr addr_A) {addr_A}, example_keystore), Inl (AccountLocked (PStr addr_A)))"
    by (rule get_signer_locked [OF example_checksum_A]) (simp_all add: example_keystore_def)
  have m: "KeystoreSigner_sign_message example_lib (PStr addr_A) (PBytes []) {addr_A} example_keystore
             = (({addr_A}, example_keystore), Inl (AccountLocked (PStr addr_A)))"
    using g
    by (simp add: KeystoreSigner_sign_message_def
          wrapped_valid_account [OF account_only_sign_message example_checksum_A])
  from u m show ?thesis by simp
qed

text \<open>
  Claim C9. For a checksum address, \<open>lock_account\<close> removes the decrypted key when
  there is one; it succeeds and changes nothing when the account is known and has none;
  it raises \<open>UnknownAccount\<close> when the account is in neither dictionary; and the value
  it returns is true exactly when the account is not in \<open>__signers\<close> afterwards.
\<close>

theorem lock_account_contract:
  assumes valid: "is_checksum_address lib account"
  shows "(map_of (signers self) account \<noteq> None \<longrightarrow>
            KeystoreSigner_lock_account lib account cache self
              = ((add_verified account cache, self\<lparr>signers := AList.delete account (signers self)\<rparr>),
                 Inr True)
            \<and> map_of (AList.delete account (signers self)) account = None)
       \<and> (map_of (signers self) account = None \<and> account \<in> fst ` set (keys self) \<longrightarrow>
            KeystoreSigner_lock_account lib account cache self
              = ((add_verified account cache, self), Inr True))
       \<and> (map_of (signers self) account = None \<and> account \<notin> fst ` set (keys self) \<longrightarrow>
            KeystoreSigner_lock_account lib account cache self
              = ((add_verified account cache, self), Inl (UnknownAccount account)))
       \<and> (\<forall>cache' self' b.
            KeystoreSigner_lock_account lib account cache self = ((cache', self'), Inr b) \<longrightarrow>
            b = (account \<notin> fst ` set (signers self')))"
proof -
  have run: "KeystoreSigner_lock_account lib account cache self
               = (case KeystoreSigner_lock_account_body account self of
                    (self', r) \<Rightarrow> ((add_verified account cache, self'), r))"
    by (simp add: KeystoreSigner_lock_account_def
          wrapped_valid_account [OF account_only_lock valid] plain_def)
  have absent: "account \<notin> fst ` set (AList.delete account (signers self))"
    by (simp add: AList.delete_eq image_iff)
  have gone: "map_of (AList.delete account (signers self)) account = None"
    using absent by (simp add: map_of_eq_None_iff)
  show ?thesis
  proof (cases "map_of (signers self) account")
    case None
    then have "account \<notin> fst ` set (signers self)"
      by (simp add: map_of_eq_None_iff)
    with None show ?thesis
      unfolding run
      by (auto simp: KeystoreSigner_lock_account_body_def getitem_def KeystoreSigner_accounts_def)
  next
    case (Some signer)
    with absent gone show ?thesis
      unfolding run
      by (auto simp: KeystoreSigner_lock_account_body_def getitem_def Let_def)
  qed
qed

text \<open>Claim C9 on the example keystore: account A unlocked, account A locked, and the
  unknown account B.\<close>

theorem lock_account_contract_witness:
  "KeystoreSigner_lock_account example_lib (PStr addr_A) {} unlocked_keystore
     = (({addr_A}, example_keystore), Inr True)
   \<and> KeystoreSigner_lock_account example_lib (PStr addr_A) {} example_keystore
     = (({addr_A}, example_keystore), Inr True)
   \<and> KeystoreSigner_lock_account example_lib (PStr addr_B) {} example_keystore
     = (({addr_B}, example_keystore), Inl (UnknownAccount (PStr addr_B)))"
proof -
  have neq: "addr_B \<noteq> addr_A" by (simp add: addr_A_def addr_B_def)
  have 1: "KeystoreSigner_lock_account example_lib (PStr addr_A) {} unlocked_keystore
             = (({addr_A}, example_keystore), Inr True)"
    using lock_account_contract [OF example_checksum_A, of unlocked_keystore "{}"]
    by (simp add: unlocked_keystore_def example_keystore_def)
  have 2: "KeystoreSigner_lock_account example_lib (PStr addr_A) {} example_keystore
             = (({addr_A}, example_keystore), Inr True)"
    using lock_account_contract [OF example_checksum_A, of example_keystore "{}"]
    by (simp add: example_keystore_def)
  have 3: "KeystoreSigner_lock_account example_lib (PStr addr_B) {} example_keystore
             = (({addr_B}, example_keystore), Inl (UnknownAccount (PStr addr_B)))"
    using lock_account_contract [OF example_checksum_B, of example_keystore "{}"] neq
    by (simp add: example_keystore_def)
  from 1 2 3 show ?thesis by simp
qed

section \<open>Properties of the Clef signer\<close>

lemma clique_arguments:
  "ClefSigner_sign_data_arguments lib account message (PStr SIGN_DATA_FOR_CLIQUE) validator_address
     = Inl NotImplementedError"
  by (simp add: ClefSigner_sign_data_arguments_def SIGN_DATA_CONTENT_TYPES_def
        SIGN_DATA_FOR_CLIQUE_def SIGN_DATA_FOR_VALIDATOR_def SIGN_DATA_FOR_ECRECOVER_def Let_def)

lemma clique_body:
  "ClefSigner_sign_message_body lib self account message (PStr SIGN_DATA_FOR_CLIQUE)
      validator_address log = (log, Inl NotImplementedError)"
  by (simp add: ClefSigner_sign_message_body_def clique_arguments)

text \<open>
  Claim C10. \<open>application/clique\<close> is one of the valid content types. With it, the
  body of \<open>sign_message\<close> raises \<open>NotImplementedError\<close> for every account, message
  and validator address, and makes no request. The decorated method, for every call,
  never returns a signature and makes no request either; it raises
  \<open>NotImplementedError\<close> whenever the address arguments of the call pass the validator,
  in whatever order the call binds them, and so for a call with positional arguments
  when \<open>account\<close> and then \<open>validator_address\<close> pass.
\<close>

theorem clique_is_accepted_but_not_implemented:
  "SIGN_DATA_FOR_CLIQUE \<in> set SIGN_DATA_CONTENT_TYPES
   \<and> ClefSigner_sign_message_body lib self account message (PStr SIGN_DATA_FOR_CLIQUE)
        validator_address log = (log, Inl NotImplementedError)
   \<and> (\<exists>cache' e.
         ClefSigner_sign_message lib self params account message (PStr SIGN_DATA_FOR_CLIQUE)
           validator_address cache log = ((cache', log), Inl e))
   \<and> (validate_addresses lib (addresses_as_parameters params) cache = (cache', None) \<longrightarrow>
        ClefSigner_sign_message lib self params account message (PStr SIGN_DATA_FOR_CLIQUE)
          validator_address cache log = ((cache', log), Inl NotImplementedError))
   \<and> (validate_addresses lib
          [(''account'', False, account), (''validator_address'', True, validator_address)] cache
          = (cache', None) \<longrightarrow>
        ClefSigner_sign_message lib self
          (sign_message_positional account message (PStr SIGN_DATA_FOR_CLIQUE) validator_address)
          account message (PStr SIGN_DATA_FOR_CLIQUE) validator_address cache log
          = ((cache', log), Inl NotImplementedError))"
proof (intro conjI impI)
  show "SIGN_DATA_FOR_CLIQUE \<in> set SIGN_DATA_CONTENT_TYPES"
    by (simp add: SIGN_DATA_CONTENT_TYPES_def)
  show "ClefSigner_sign_message_body lib self account message (PStr SIGN_DATA_FOR_CLIQUE)
          validator_address log = (log, Inl NotImplementedError)"
    by (rule clique_body)
  show "\<exists>cache' e.
          ClefSigner_sign_message lib self params account message (PStr SIGN_DATA_FOR_CLIQUE)
            validator_address cache log = ((cache', log), Inl e)"
    unfolding ClefSigner_sign_message_def wrapped_def
    by (cases "validate_addresses lib (addresses_as_parameters params) cache")
       (auto simp: plain_def clique_body split: option.splits)
next
  assume "validate_addresses lib (addresses_as_parameters params) cache = (cache', None)"
  then show "ClefSigner_sign_message lib self params account message (PStr SIGN_DATA_FOR_CLIQUE)
               validator_address cache log = ((cache', log), Inl NotImplementedError)"
    unfolding ClefSigner_sign_message_def wrapped_def
    by (simp add: plain_def clique_body)
next
  assume "validate_addresses lib
            [(''account'', False, account), (''validator_address'', True, validator_address)] cache
          = (cache', None)"
  then show "ClefSigner_sign_message lib self
          (sign_message_positional account message (PStr SIGN_DATA_FOR_CLIQUE) validator_address)
          account message (PStr SIGN_DATA_FOR_CLIQUE) validator_address cache log
          = ((cache', log), Inl NotImplementedError)"
    unfolding ClefSigner_sign_message_def wrapped_def sign_message_positional_addresses
    by (simp add: plain_def clique_body)
qed

text \<open>Claim C10, for account A and a one-byte message, in a call with positional
  arguments.\<close>

theorem clique_witness:
  "ClefSigner_sign_message example_lib example_clef
     (sign_message_positional (PStr addr_A) (PBytes [0x01]) (PStr ''application/clique'') PNone)
     (PStr addr_A) (PBytes [0x01]) (PStr ''application/clique'') PNone {} []
     = (({addr_A}, []), Inl NotImplementedError)"
proof -
  have v: "validate_addresses example_lib
             [(''account'', False, PStr addr_A), (''validator_address'', True, PNone)] {}
           = ({addr_A}, None)"
    using example_checksum_A by simp
  have c: "PStr ''application/clique'' = PStr SIGN_DATA_FOR_CLIQUE"
    by (simp add: SIGN_DATA_FOR_CLIQUE_def)
  from clique_is_accepted_but_not_implemented [of example_lib example_clef "PStr addr_A"
      "PBytes [0x01]" PNone "[]" _ "{}" "{addr_A}"] v
  show ?thesis unfolding c by blast
qed

lemma clef_operations_fail_as_request:
  assumes "ipc_request self endpoint args log = (log', Inl e)"
  shows "endpoint = ''account_list'' \<and> args = [] \<longrightarrow> ClefSigner_accounts lib self log = (log', Inl e)"
    and "endpoint = ''account_signTransaction'' \<and> args = [PDict formatted]
           \<and> ClefSigner_format_transaction lib transaction_dict = Inr formatted \<longrightarrow>
         ClefSigner_sign_transaction lib self transaction_dict cache log = ((cache, log'), Inl e)"
    and "endpoint = ''account_signData''
           \<and> ClefSigner_sign_data_arguments lib account message content_type validator_address = Inr args
           \<and> validate_addresses lib (addresses_as_parameters params) cache = (cache', None) \<longrightarrow>
         ClefSigner_sign_message lib self params account message content_type validator_address
           cache log = ((cache', log'), Inl e)"
  using assms
  by (auto simp: ClefSigner_accounts_def ClefSigner_sign_transaction_def wrapped_def
        no_address_in_sign_transaction plain_def ClefSigner_sign_transaction_body_def
        ClefSigner_sign_message_def ClefSigner_sign_message_body_def)

text \<open>
  Claim C5, as the code has it. When the blocking request of \<open>accounts\<close>, of
  \<open>sign_transaction\<close> or of \<open>sign_message\<close> raises \<open>FileNotFoundError\<close> or
  \<open>ConnectionRefusedError\<close>, the operation raises an exception of the same class whose
  message gives the path of the endpoint. It is an \<open>OSError\<close> and no \<open>SignerError\<close>.
  For \<open>sign_message\<close> this holds of every call whose address arguments pass the
  validator, in whatever order the call binds them, and so of a call with positional
  arguments when \<open>account\<close> and then \<open>validator_address\<close> pass.
\<close>

theorem connection_failure_keeps_its_class:
  assumes io: "io = FileNotFoundError m \<or> io = ConnectionRefusedError m"
      and fail: "request_blocking self log endpoint args = Inl io"
  shows "(endpoint = ''account_list'' \<and> args = [] \<longrightarrow>
            ClefSigner_accounts lib self log
              = (log @ [(endpoint, args)], Inl (ipc_error_handler self io)))
       \<and> (endpoint = ''account_signTransaction'' \<and> args = [PDict formatted]
            \<and> ClefSigner_format_transaction lib transaction_dict = Inr formatted \<longrightarrow>
            ClefSigner_sign_transaction lib self transaction_dict cache log
              = ((cache, log @ [(endpoint, args)]), Inl (ipc_error_handler self io)))
       \<and> (endpoint = ''account_signData''
            \<and> ClefSigner_sign_data_arguments lib account message content_type validator_address
                = Inr args
            \<and> validate_addresses lib (addresses_as_parameters params) cache = (cache', None) \<longrightarrow>
            ClefSigner_sign_message lib self params account message content_type validator_address
              cache log
              = ((cache', log @ [(endpoint, args)]), Inl (ipc_error_handler self io)))
       \<and> (endpoint = ''account_signData''
            \<and> ClefSigner_sign_data_arguments lib account message content_type validator_address
                = Inr args
            \<and> validate_addresses lib
                [(''account'', False, account), (''validator_address'', True, validator_address)]
                cache = (cache', None) \<longrightarrow>
            ClefSigner_sign_message lib self
              (sign_message_positional account message content_type validator_address)
              account message content_type validator_address cache log
              = ((cache', log @ [(endpoint, args)]), Inl (ipc_error_handler self io)))
       \<and> ipc_error_handler self io
            = (if io = FileNotFoundError m then FileNotFoundError (not_found_message (ipc_path self))
               else ConnectionRefusedError (refused_message (ipc_path self)))
       \<and> not_found_message (ipc_path self)
            = ''Clef IPC file not found. Is clef running and available at ''
                @ dquote (ipc_path self) @ ''?''
       \<and> refused_message (ipc_path self)
            = ''Clef refused connection. Is clef running and available at ''
                @ dquote (ipc_path self) @ ''?''
       \<and> is_OSError (ipc_error_handler self io) \<and> \<not> is_SignerError (ipc_error_handler self io)"
proof -
  have req: "ipc_request self endpoint args log
               = (log @ [(endpoint, args)], Inl (ipc_error_handler self io))"
    using io fail by (auto simp: ipc_request_def ipc_error_handler_def)
  have cls: "ipc_error_handler self io
            = (if io = FileNotFoundError m then FileNotFoundError (not_found_message (ipc_path self))
               else ConnectionRefusedError (refused_message (ipc_path self)))"
    using io by (auto simp: ipc_error_handler_def)
  have os: "is_OSError (ipc_error_handler self io) \<and> \<not> is_SignerError (ipc_error_handler self io)"
    using io by (auto simp: ipc_error_handler_def)
  note ops = clef_operations_fail_as_request [OF req]
  from ops(3) [of lib account message content_type validator_address
      "sign_message_positional account message content_type validator_address" cache cache']
  have positional:
    "endpoint = ''account_signData''
       \<and> ClefSigner_sign_data_arguments lib account message content_type validator_address
           = Inr args
       \<and> validate_addresses lib
           [(''account'', False, account), (''validator_address'', True, validator_address)]
           cache = (cache', None) \<longrightarrow>
     ClefSigner_sign_message lib self
       (sign_message_positional account message content_type validator_address)
       account message content_type validator_address cache log
       = ((cache', log @ [(endpoint, args)]), Inl (ipc_error_handler self io))"
    by (simp add: sign_message_positional_addresses)
  from ops(1) [of lib] ops(2) [of formatted lib transaction_dict cache]
    ops(3) [of lib account message content_type validator_address params cache cache']
    positional cls os
  show ?thesis
    by (simp add: not_found_message_def refused_message_def)
qed

text \<open>Claim C5, for \<open>accounts\<close> on a signer whose endpoint file does not exist.\<close>

theorem connection_failure_witness:
  "ClefSigner_accounts example_lib example_clef []
     = ([(''account_list'', [])],
        Inl (FileNotFoundError
               (''Clef IPC file not found. Is clef running and available at ''
                  @ dquote ''/home/user/.clef/clef.ipc'' @ ''?'')))"
proof -
  have io: "FileNotFoundError ''[Errno 2] No such file or directory''
              = FileNotFoundError ''[Errno 2] No such file or directory''
            \<or> FileNotFoundError ''[Errno 2] No such file or directory''
              = ConnectionRefusedError ''[Errno 2] No such file or directory''"
    by simp
  have fail: "request_blocking example_clef [] ''account_list'' []
                = Inl (FileNotFoundError ''[Errno 2] No such file or directory'')"
    by (simp add: example_clef_def)
  from connection_failure_keeps_its_class [OF io fail, of example_lib]
  show ?thesis
    by (simp add: example_clef_def)
qed

text \<open>
  Claim C5 as stated fails on that signer: what \<open>accounts\<close> raises is a
  \<open>FileNotFoundError\<close>, an input/output error of the interpreter, and not an error of
  the signer's own classes.
\<close>

theorem connection_failure_counterexample:
  "snd (ClefSigner_accounts example_lib example_clef [])
     = Inl (FileNotFoundError (not_found_message ''/home/user/.clef/clef.ipc''))
   \<and> is_OSError (FileNotFoundError (not_found_message ''/home/user/.clef/clef.ipc''))
   \<and> \<not> is_SignerError (FileNotFoundError (not_found_message ''/home/user/.clef/clef.ipc''))"
  by (simp add: ClefSigner_accounts_def ipc_request_def ipc_error_handler_def example_clef_def)

section \<open>Properties of the Trezor signer\<close>

lemma handler_cases:
  "device_error_handler USBErrorNoDevice = NoDeviceDetected no_device_message"
  "e \<noteq> USBErrorNoDevice \<Longrightarrow> e \<noteq> USBErrorBusy \<Longrightarrow> device_error_handler e = e"
  by (cases e; simp add: device_error_handler_def)+

text \<open>
  Claim C4, as the code has it. When the device call of \<open>get_address\<close>, of
  \<open>sign_message\<close> or of \<open>sign_transaction\<close> raises an exception other than
  \<open>USBErrorBusy\<close>, the operation raises \<open>NoDeviceDetected\<close> if the exception is
  \<open>USBErrorNoDevice\<close>, and the exception itself, unchanged, otherwise.
\<close>

theorem device_errors_as_translated:
  assumes not_busy: "e \<noteq> USBErrorBusy"
  shows "(TrezorSigner_get_address_hd_path lib self index hd_path = Inr n
            \<and> ethereum_get_address self log n show_display = Inl e \<longrightarrow>
          TrezorSigner_get_address lib self index hd_path show_display log
            = (log @ [GetAddress n show_display], Inl (device_error_handler e)))
       \<and> (get_address_path lib self None checksum_address = Inr n
            \<and> ethereum_sign_message self log n message = Inl e \<longrightarrow>
          TrezorSigner_sign_message lib self message checksum_address log
            = (log @ [SignMessage n message], Inl (device_error_handler e)))
       \<and> (TrezorSigner_prepare_transaction lib self transaction_dict
              = Inr (checksum_address, trezor_transaction, transaction_dict', n)
            \<and> ethereum_sign_tx self log n trezor_transaction = Inl e \<longrightarrow>
          TrezorSigner_sign_transaction lib self transaction_dict rlp_encoded log
            = (log @ [SignTx n trezor_transaction], Inl (device_error_handler e)))
       \<and> device_error_handler e
            = (if e = USBErrorNoDevice then NoDeviceDetected no_device_message else e)"
proof -
  have h: "device_error_handler e
             = (if e = USBErrorNoDevice then NoDeviceDetected no_device_message else e)"
    using not_busy handler_cases by auto
  show ?thesis
    unfolding h [symmetric]
    by (auto simp: TrezorSigner_get_address_def TrezorSigner_get_address_body_def
          TrezorSigner_sign_message_def TrezorSigner_sign_message_body_def
          TrezorSigner_sign_transaction_def TrezorSigner_sign_transaction_body_def
          handle_device_call_def h)
qed

text \<open>Claim C4, for \<open>get_address\<close> on a device that has been unplugged.\<close>

theorem device_errors_witness:
  "TrezorSigner_get_address example_lib unplugged_trezor None (Some path_0) True []
     = ([GetAddress path_0 True], Inl (NoDeviceDetected no_device_message))"
proof -
  have nb: "USBErrorNoDevice \<noteq> USBErrorBusy" by simp
  have p: "TrezorSigner_get_address_hd_path example_lib unplugged_trezor None (Some path_0) = Inr path_0"
    by (simp add: TrezorSigner_get_address_hd_path_def path_0_def)
  have d: "ethereum_get_address unplugged_trezor [] path_0 True = Inl USBErrorNoDevice"
    by (simp add: unplugged_trezor_def example_trezor_def)
  from device_errors_as_translated [OF nb, of example_lib unplugged_trezor None "Some path_0"
      path_0 "[]" True] p d
  show ?thesis by simp
qed

text \<open>On a busy device the handler itself fails: the caller gets an \<open>AttributeError\<close>.\<close>

lemma busy_device_raises_AttributeError:
  "ethereum_get_address self log (x # xs) show_display = Inl USBErrorBusy
     \<Longrightarrow> TrezorSigner_get_address lib self index (Some (x # xs)) show_display log
           = (log @ [GetAddress (x # xs) show_display], Inl (no_attribute ''DeviceError''))"
  by (simp add: TrezorSigner_get_address_def TrezorSigner_get_address_body_def
        TrezorSigner_get_address_hd_path_def handle_device_call_def device_error_handler_def)

text \<open>
  Claim C4 as stated fails on a device whose transfers time out: \<open>get_address\<close> raises
  the transport error of the USB stack itself, which is no \<open>SignerError\<close>.
\<close>

theorem device_errors_counterexample:
  "TrezorSigner_get_address example_lib timeout_trezor None (Some path_0) True []
     = ([GetAddress path_0 True], Inl (USBErrorOther ''LIBUSB_ERROR_TIMEOUT''))
   \<and> is_transport_error (USBErrorOther ''LIBUSB_ERROR_TIMEOUT'')
   \<and> \<not> is_SignerError (USBErrorOther ''LIBUSB_ERROR_TIMEOUT'')"
  by (simp add: TrezorSigner_get_address_def TrezorSigner_get_address_body_def
        TrezorSigner_get_address_hd_path_def handle_device_call_def device_error_handler_def
        timeout_trezor_def example_trezor_def path_0_def)










text \<open>
  Whatever \<open>sign_transaction\<close> serializes has no \<open>chainId\<close>, and has as \<open>to\<close> the
  canonical form of the value that was popped from \<open>from\<close>.
\<close>

lemma serialized_recipient_is_sender:
  assumes "serialize_signed lib checksum_address vrs transaction_dict rlp_encoded = Inr result"
  shows "\<exists>canonical v r s kwargs.
           to_canonical_address lib checksum_address = Inr canonical
         \<and> map_of kwargs ''to'' = Some (PBytes canonical)
         \<and> map_of kwargs ''chainId'' = None
         \<and> (if rlp_encoded
              then map_sum id Encoded (rlp_encode lib (Transaction v r s kwargs)) = Inr result
              else result = Unencoded (Transaction v r s kwargs))"
proof -
  obtain v r s where vrs: "vrs = (v, r, s)" by (cases vrs)
  from assms obtain c canonical v' r' s' where
      c: "getitem transaction_dict ''chainId'' PStr = Inr c"
    and canonical: "to_canonical_address lib checksum_address = Inr canonical"
    and ints: "to_int lib v = Inr v'" "to_int lib r = Inr r'" "to_int lib s = Inr s'"
    by (auto simp: serialize_signed_def vrs split: sum.splits)
  let ?kwargs = "AList.update ''to'' (PBytes canonical) (AList.delete ''chainId'' transaction_dict)"
  from assms c canonical ints obtain t where t: "new_Transaction v' r' s' ?kwargs = Inr t"
    by (auto simp: serialize_signed_def vrs split: sum.splits)
  then have t_eq: "t = Transaction v' r' s' ?kwargs"
    by (auto simp: new_Transaction_def split: if_splits)
  have res: "if rlp_encoded
               then map_sum id Encoded (rlp_encode lib (Transaction v' r' s' ?kwargs)) = Inr result
               else result = Unencoded (Transaction v' r' s' ?kwargs)"
    using assms c canonical ints t
    by (auto simp: serialize_signed_def vrs t_eq)
  have "map_of ?kwargs ''to'' = Some (PBytes canonical)"
    by (simp add: update_conv')
  moreover have "map_of ?kwargs ''chainId'' = None"
    by (simp add: update_conv' delete_conv')
  ultimately show ?thesis using canonical res by blast
qed

lemmas trezor_run =
  TrezorSigner_sign_transaction_def TrezorSigner_sign_transaction_body_def
  TrezorSigner_prepare_transaction_def handle_device_call_def getitem_def
  apply_key_map_def trezor_transaction_keys_def format_data_def get_address_path_def
  serialize_signed_def new_Transaction_def transaction_fields_def
  example_lib_def example_trezor_def example_canonical_def example_rlp_def int_only_def
  bytes_only_def

text \<open>
  Claim C3 at a transfer from A to B. The device is asked to sign the transaction to B.
  The transaction that is built and encoded afterwards has no \<open>chainId\<close>, and its \<open>to\<close>
  is the canonical form of A, the sender, not of B.
\<close>

theorem trezor_recipient_is_the_sender:
  "TrezorSigner_sign_transaction example_lib example_trezor transfer_tx False []
     = ([SignTx path_0
           [(''nonce'', PInt 0), (''gas_price'', PInt 1), (''gas_limit'', PInt 21000),
            (''to'', PStr addr_B), (''value'', PInt 1), (''data'', PBytes []),
            (''chain_id'', PInt 1)]],
        Inr (Unencoded (Transaction 37 1 2
           [(''nonce'', PInt 0), (''gasPrice'', PInt 1), (''gas'', PInt 21000),
            (''to'', PBytes canonical_A), (''value'', PInt 1), (''data'', PBytes [])])))
   \<and> snd (TrezorSigner_sign_transaction example_lib example_trezor transfer_tx True [])
     = Inr (Encoded canonical_A)
   \<and> to_canonical_address example_lib (PStr addr_B) = Inr canonical_B
   \<and> canonical_B \<noteq> canonical_A"
proof -
  have neq: "addr_B \<noteq> addr_A" "addr_B \<noteq> addr_A_lower"
    by (simp_all add: addr_A_def addr_B_def addr_A_lower_def)
  have 1: "TrezorSigner_sign_transaction example_lib example_trezor transfer_tx False []
     = ([SignTx path_0
           [(''nonce'', PInt 0), (''gas_price'', PInt 1), (''gas_limit'', PInt 21000),
            (''to'', PStr addr_B), (''value'', PInt 1), (''data'', PBytes []),
            (''chain_id'', PInt 1)]],
        Inr (Unencoded (Transaction 37 1 2
           [(''nonce'', PInt 0), (''gasPrice'', PInt 1), (''gas'', PInt 21000),
            (''to'', PBytes canonical_A), (''value'', PInt 1), (''data'', PBytes [])])))"
    by (simp add: trezor_run transfer_tx_def)
  have 2: "snd (TrezorSigner_sign_transaction example_lib example_trezor transfer_tx True [])
     = Inr (Encoded canonical_A)"
    by (simp add: trezor_run transfer_tx_def)
  have 3: "to_canonical_address example_lib (PStr addr_B) = Inr canonical_B"
    using neq by (simp add: example_lib_def example_canonical_def)
  have 4: "canonical_B \<noteq> canonical_A"
    by (simp add: canonical_A_def canonical_B_def)
  from 1 2 3 4 show ?thesis by simp
qed

text \<open>
  Claim C2 at a contract creation by A on the Trezor signer. The device is asked to
  sign the transaction with the empty \<open>to\<close>; the transaction that is built and encoded has
  the 20 bytes of A as \<open>to\<close>.
\<close>

theorem trezor_creation_has_a_recipient:
  "TrezorSigner_sign_transaction example_lib example_trezor creation_tx False []
     = ([SignTx path_0
           [(''nonce'', PInt 0), (''gas_price'', PInt 1), (''gas_limit'', PInt 3000000),
            (''to'', PBytes []), (''value'', PInt 0), (''data'', PBytes [0x60, 0x80]),
            (''chain_id'', PInt 1)]],
        Inr (Unencoded (Transaction 37 1 2
           [(''nonce'', PInt 0), (''gasPrice'', PInt 1), (''gas'', PInt 3000000),
            (''to'', PBytes canonical_A), (''value'', PInt 0), (''data'', PBytes [0x60, 0x80])])))
   \<and> snd (TrezorSigner_sign_transaction example_lib example_trezor creation_tx True [])
     = Inr (Encoded canonical_A)
   \<and> length canonical_A = 20"
proof -
  have 1: "TrezorSigner_sign_transaction example_lib example_trezor creation_tx False []
     = ([SignTx path_0
           [(''nonce'', PInt 0), (''gas_price'', PInt 1), (''gas_limit'', PInt 3000000),
            (''to'', PBytes []), (''value'', PInt 0), (''data'', PBytes [0x60, 0x80]),
            (''chain_id'', PInt 1)]],
        Inr (Unencoded (Transaction 37 1 2
           [(''nonce'', PInt 0), (''gasPrice'', PInt 1), (''gas'', PInt 3000000),
            (''to'', PBytes canonical_A), (''value'', PInt 0), (''data'', PBytes [0x60, 0x80])])))"
    by (simp add: trezor_run creation_tx_def)
  have 2: "snd (TrezorSigner_sign_transaction example_lib example_trezor creation_tx True [])
     = Inr (Encoded canonical_A)"
    by (simp add: trezor_run creation_tx_def)
  have 3: "length canonical_A = 20" by (simp add: canonical_A_def)
  from 1 2 3 show ?thesis by simp
qed

text \<open>The other two signers at a contract creation: the Clef signer sends \<open>None\<close> as
  \<open>to\<close>, the keystore signer hands the account a dictionary without \<open>to\<close>.\<close>

lemma apply_formatters_keeps_unformatted:
  "apply_formatters_to_dict formatters d = Inr d' \<Longrightarrow> map_of formatters k = None
     \<Longrightarrow> map_of d' k = map_of d k"
proof (induction d arbitrary: d')
  case Nil
  then show ?case by simp
next
  case (Cons p d)
  obtain key item where p: "p = (key, item)" by (cases p)
  from Cons.prems(1) obtain item' rest where
      rest: "apply_formatters_to_dict formatters d = Inr rest"
    and d': "d' = (key, item') # rest"
    and item': "(case map_of formatters key of None \<Rightarrow> Inr item | Some f \<Rightarrow> f item) = Inr item'"
    by (auto simp: p split: sum.splits)
  show ?case
  proof (cases "key = k")
    case True
    with item' Cons.prems(2) show ?thesis by (simp add: d' p)
  next
    case False
    with Cons.IH [OF rest Cons.prems(2)] show ?thesis by (simp add: d' p)
  qed
qed

lemma clef_creation_sends_None:
  assumes "map_of transaction_dict ''to'' = Some (PBytes [])"
      and "ClefSigner_format_transaction lib transaction_dict = Inr formatted"
  shows "map_of formatted ''to'' = Some PNone"
proof -
  have f: "apply_formatters_to_dict (clef_formatters lib)
             (AList.update ''to'' PNone transaction_dict) = Inr formatted"
    using assms by (simp add: ClefSigner_format_transaction_def getitem_def)
  have "map_of (clef_formatters lib) ''to'' = None"
    by (simp add: clef_formatters_def)
  from apply_formatters_keeps_unformatted [OF f this] show ?thesis
    by (simp add: update_conv')
qed

lemma keystore_creation_omits_recipient:
  assumes sender: "map_of transaction_dict ''from'' = Some sender"
      and valid: "is_checksum_address lib sender"
      and unlocked: "map_of (signers self) sender = Some signer"
      and to: "map_of transaction_dict ''to'' = Some to" "\<not> truthy to"
  shows "KeystoreSigner_sign_transaction lib transaction_dict cache self
           = ((add_verified sender cache, self),
              account_sign_transaction lib signer (AList.delete ''to'' transaction_dict))"
    and "map_of (AList.delete ''to'' transaction_dict) ''to'' = None"
proof -
  have v: "validate_addresses lib [(''account'', False, sender)] cache
             = (add_verified sender cache, None)"
    using valid by (cases sender) (auto simp: is_checksum_address_def insert_absorb)
  have a: "addresses_as_parameters [(''account'', False, sender)] = [(''account'', False, sender)]"
    by (simp add: addresses_as_parameters_def aliases_def)
  have g: "KeystoreSigner_get_signer lib sender cache self
             = ((add_verified sender cache, self), Inr signer)"
    unfolding KeystoreSigner_get_signer_def wrapped_def a v
    using unlocked by (simp add: plain_def KeystoreSigner_get_signer_body_def getitem_def)
  have n: "addresses_as_parameters [(''transaction_dict'', False, PDict transaction_dict)] = []"
    by (simp add: addresses_as_parameters_def endswith_def parameter_name_suffix_def aliases_def)
  show "KeystoreSigner_sign_transaction lib transaction_dict cache self
           = ((add_verified sender cache, self),
              account_sign_transaction lib signer (AList.delete ''to'' transaction_dict))"
    using sender to g
    by (simp add: KeystoreSigner_sign_transaction_def wrapped_def n getitem_def)
  show "map_of (AList.delete ''to'' transaction_dict) ''to'' = None"
    by (simp add: delete_conv')
qed

end
